theory Spec2Isabelle
  imports Main "HOL-Library.AList"
begin

section \<open>Python values\<close>

text \<open>
  The error bodies handled by \<^verbatim>\<open>ext/errors/base_errors.py\<close> are JSON-decoded Python
  values. A \<^verbatim>\<open>dict\<close> is an association list in insertion order (the order
  \<^verbatim>\<open>d.items()\<close> iterates in); its keys are strings, as the annotation
  \<^verbatim>\<open>Dict[str, Any]\<close> says. JSON numbers are modelled as unbounded integers.
\<close>

datatype pyval =
    PNone
  | PBool bool
  | PInt int
  | PStr string
  | PList "pyval list"
  | PDict "(string \<times> pyval) list"

text \<open>The exceptions the modelled code can raise by itself.\<close>

datatype py_error = AttributeError | TypeError

type_synonym pydict = "(string \<times> pyval) list"

fun is_dict :: "pyval \<Rightarrow> bool" where
  "is_dict (PDict d) = True"
| "is_dict v = False"

fun is_str :: "pyval \<Rightarrow> bool" where
  "is_str (PStr s) = True"
| "is_str v = False"

text \<open>Truth value of an object, as tested by \<^verbatim>\<open>if x:\<close> and \<^verbatim>\<open>x or y\<close>.\<close>

fun py_truthy :: "pyval \<Rightarrow> bool" where
  "py_truthy PNone = False"
| "py_truthy (PBool b) = b"
| "py_truthy (PInt i) = (i \<noteq> 0)"
| "py_truthy (PStr s) = (s \<noteq> [])"
| "py_truthy (PList xs) = (xs \<noteq> [])"
| "py_truthy (PDict d) = (d \<noteq> [])"

text \<open>\<^verbatim>\<open>x or y\<close>\<close>

definition py_or :: "pyval \<Rightarrow> pyval \<Rightarrow> pyval" where
  "py_or x y = (if py_truthy x then x else y)"

text \<open>\<^verbatim>\<open>d.get(k, default)\<close>\<close>

definition dict_get :: "pydict \<Rightarrow> string \<Rightarrow> pyval \<Rightarrow> pyval" where
  "dict_get d k dflt = (case map_of d k of None \<Rightarrow> dflt | Some v \<Rightarrow> v)"

text \<open>
  \<^verbatim>\<open>dict(items)\<close>: the pairs are inserted from left to right; a key that is already
  there keeps its position and takes the new value.
\<close>

definition py_dict :: "(string \<times> pyval) list \<Rightarrow> pydict" where
  "py_dict items = fold (\<lambda>(k, v) d. AList.update k v d) items []"

text \<open>
  \<^verbatim>\<open>sep.join(xs)\<close> on the already evaluated items: every item has to be a string,
  otherwise \<^verbatim>\<open>TypeError\<close>.
\<close>

fun str_join :: "string \<Rightarrow> pyval list \<Rightarrow> py_error + string" where
  "str_join sep [] = Inr []"
| "str_join sep [PStr s] = Inr s"
| "str_join sep (PStr s # x # xs) =
     (case str_join sep (x # xs) of Inl e \<Rightarrow> Inl e | Inr r \<Rightarrow> Inr (s @ sep @ r))"
| "str_join sep (v # xs) = Inl TypeError"

text \<open>
  Iterating over a value (\<^verbatim>\<open>for x in v\<close>): a list yields its elements, a dict its
  keys, a string its characters; \<^verbatim>\<open>None\<close>, booleans and integers are not iterable.
\<close>

fun py_iter :: "pyval \<Rightarrow> py_error + pyval list" where
  "py_iter (PList xs) = Inr xs"
| "py_iter (PDict d) = Inr (map (\<lambda>(k, v). PStr k) d)"
| "py_iter (PStr s) = Inr (map (\<lambda>c. PStr [c]) s)"
| "py_iter v = Inl TypeError"

text \<open>
  The generator \<^verbatim>\<open>x.get('message', '') for x in _errors\<close>, which \<^verbatim>\<open>join\<close>
  runs to its end before it looks at the items: an \<^verbatim>\<open>x\<close> that is not a dict has no
  \<^verbatim>\<open>get\<close>.
\<close>

fun get_messages :: "pyval list \<Rightarrow> py_error + pyval list" where
  "get_messages [] = Inr []"
| "get_messages (PDict x # xs) =
     (case get_messages xs of Inl e \<Rightarrow> Inl e
      | Inr ms \<Rightarrow> Inr (dict_get x ''message'' (PStr []) # ms))"
| "get_messages (v # xs) = Inl AttributeError"

text \<open>\<^verbatim>\<open>' '.join(x.get('message', '') for x in _errors)\<close>\<close>

definition join_messages :: "pyval \<Rightarrow> py_error + string" where
  "join_messages errs =
     (case py_iter errs of Inl e \<Rightarrow> Inl e
      | Inr xs \<Rightarrow> (case get_messages xs of Inl e \<Rightarrow> Inl e | Inr ms \<Rightarrow> str_join '' '' ms))"

text \<open>\<^verbatim>\<open>new_key = key + '.' + k if key else k\<close>\<close>

definition new_key :: "string \<Rightarrow> string \<Rightarrow> string" where
  "new_key key k = (if key \<noteq> [] then key @ ''.'' @ k else k)"

section \<open>The flattener of \<^verbatim>\<open>ext/errors/base_errors.py\<close>\<close>

text \<open>
  \<^verbatim>\<open>flatten_items d key\<close> is the list \<^verbatim>\<open>items\<close> at the end of the loop of
  \<^verbatim>\<open>_flatten_error_dict(d, key)\<close>, and \<^verbatim>\<open>flatten_error_dict\<close> is the function itself,
  which returns \<^verbatim>\<open>dict(items)\<close>. The recursive call of the source is a call of the whole
  function, so the items that \<^verbatim>\<open>extend\<close> adds are those of the dict it returned.
  The \<^verbatim>\<open>KeyError\<close> of \<^verbatim>\<open>v['_errors']\<close> is caught where it is raised, so it is a
  branch and no result. The interpreter's limit on the depth of recursion is not modelled.
\<close>

function flatten_items :: "pydict \<Rightarrow> string \<Rightarrow> py_error + (string \<times> pyval) list" where
  "flatten_items [] key = Inr []"
| "flatten_items ((k, v) # d) key =
     (case v of
        PDict vd \<Rightarrow>
          (case map_of vd ''_errors'' of
             None \<Rightarrow>
               (case flatten_items vd (new_key key k) of
                  Inl e \<Rightarrow> Inl e
                | Inr sub \<Rightarrow>
                    (case flatten_items d key of
                       Inl e \<Rightarrow> Inl e
                     | Inr rest \<Rightarrow> Inr (py_dict sub @ rest)))
           | Some errs \<Rightarrow>
               (case join_messages errs of
                  Inl e \<Rightarrow> Inl e
                | Inr s \<Rightarrow>
                    (case flatten_items d key of
                       Inl e \<Rightarrow> Inl e
                     | Inr rest \<Rightarrow> Inr ((new_key key k, PStr s) # rest))))
      | _ \<Rightarrow>
          (case flatten_items d key of
             Inl e \<Rightarrow> Inl e
           | Inr rest \<Rightarrow> Inr ((new_key key k, v) # rest)))"
  by pat_completeness auto
termination
  by (relation "measure (\<lambda>(d, key). size_list (size_prod (\<lambda>_. 0) size) d)") auto

definition flatten_error_dict :: "pydict \<Rightarrow> string \<Rightarrow> py_error + pydict" where
  "flatten_error_dict d key =
     (case flatten_items d key of Inl e \<Rightarrow> Inl e | Inr items \<Rightarrow> Inr (py_dict items))"

section \<open>The flattener of \<^verbatim>\<open>errors.py\<close>\<close>

text \<open>
  The module \<^verbatim>\<open>errors.py\<close> has a definition of \<^verbatim>\<open>_flatten_error_dict\<close> of its
  own (lines 43 to 62), embedded here from that text.
\<close>

function errors_flatten_items :: "pydict \<Rightarrow> string \<Rightarrow> py_error + (string \<times> pyval) list" where
  "errors_flatten_items [] key = Inr []"
| "errors_flatten_items ((k, v) # d) key =
     (case v of
        PDict vd \<Rightarrow>
          (case map_of vd ''_errors'' of
             None \<Rightarrow>
               (case errors_flatten_items vd (new_key key k) of
                  Inl e \<Rightarrow> Inl e
                | Inr sub \<Rightarrow>
                    (case errors_flatten_items d key of
                       Inl e \<Rightarrow> Inl e
                     | Inr rest \<Rightarrow> Inr (py_dict sub @ rest)))
           | Some errs \<Rightarrow>
               (case join_messages errs of
                  Inl e \<Rightarrow> Inl e
                | Inr s \<Rightarrow>
                    (case errors_flatten_items d key of
                       Inl e \<Rightarrow> Inl e
                     | Inr rest \<Rightarrow> Inr ((new_key key k, PStr s) # rest))))
      | _ \<Rightarrow>
          (case errors_flatten_items d key of
             Inl e \<Rightarrow> Inl e
           | Inr rest \<Rightarrow> Inr ((new_key key k, v) # rest)))"
  by pat_completeness auto
termination
  by (relation "measure (\<lambda>(d, key). size_list (size_prod (\<lambda>_. 0) size) d)") auto

definition errors_flatten_error_dict :: "pydict \<Rightarrow> string \<Rightarrow> py_error + pydict" where
  "errors_flatten_error_dict d key =
     (case errors_flatten_items d key of Inl e \<Rightarrow> Inl e | Inr items \<Rightarrow> Inr (py_dict items))"

section \<open>Constructing \<^verbatim>\<open>HTTPException\<close>\<close>

text \<open>
  The response object is read through three attributes only. An attribute the object
  does not have is \<open>None\<close> here, and reading it raises \<^verbatim>\<open>AttributeError\<close>:
  a \<^verbatim>\<open>requests.Response\<close> has \<^verbatim>\<open>status_code\<close> and \<^verbatim>\<open>reason\<close>, an
  \<^verbatim>\<open>aiohttp.ClientResponse\<close> has \<^verbatim>\<open>status\<close> and \<^verbatim>\<open>reason\<close>.
\<close>

record response =
  status_code :: "pyval option"
  status :: "pyval option"
  reason :: "pyval option"

text \<open>\<^verbatim>\<open>response.name\<close>\<close>

definition getattr :: "pyval option \<Rightarrow> py_error + pyval" where
  "getattr a = (case a of None \<Rightarrow> Inl AttributeError | Some v \<Rightarrow> Inr v)"

text \<open>
  The attributes of the constructed exception. \<^verbatim>\<open>self._errors\<close> is set in the dict
  branch only; \<open>exc_message\<close> is the string handed to \<^verbatim>\<open>Exception.__init__\<close>.
\<close>

record http_exception =
  exc_response :: response
  exc_status :: pyval
  exc_code :: pyval
  exc_text :: pyval
  exc_errors :: "pyval option"
  exc_message :: string

text \<open>
  \<^verbatim>\<open>str(v)\<close>, which \<^verbatim>\<open>%s\<close> and \<^verbatim>\<open>{}\<close> apply: a string is itself; for every other
  value it is the builtin \<^verbatim>\<open>repr\<close>, a parameter of the model.
\<close>

definition py_str :: "(pyval \<Rightarrow> string) \<Rightarrow> pyval \<Rightarrow> string" where
  "py_str repr v = (case v of PStr s \<Rightarrow> s | _ \<Rightarrow> repr v)"

text \<open>\<^verbatim>\<open>len(v)\<close>\<close>

fun py_len :: "pyval \<Rightarrow> py_error + nat" where
  "py_len (PStr s) = Inr (length s)"
| "py_len (PList xs) = Inr (length xs)"
| "py_len (PDict d) = Inr (length d)"
| "py_len v = Inl TypeError"

text \<open>\<^verbatim>\<open>base + '\n' + helpful\<close>: only a string can be added to a string.\<close>

definition str_add :: "pyval \<Rightarrow> string \<Rightarrow> py_error + pyval" where
  "str_add base s = (case base of PStr b \<Rightarrow> Inr (PStr (b @ s)) | _ \<Rightarrow> Inl TypeError)"

text \<open>\<^verbatim>\<open>'\n'.join('In %s: %s' % t for t in errors.items())\<close>\<close>

definition helpful :: "(pyval \<Rightarrow> string) \<Rightarrow> pydict \<Rightarrow> py_error + string" where
  "helpful repr errors =
     str_join [CHR 0x0A] (map (\<lambda>(p, m). PStr (''In '' @ p @ '': '' @ py_str repr m)) errors)"

text \<open>Lines 98 to 105: the status.\<close>

definition read_status :: "response \<Rightarrow> py_error + pyval" where
  "read_status r =
     (case getattr (status_code r) of
        Inl e \<Rightarrow> Inl e
      | Inr sc \<Rightarrow>
          if py_truthy sc then Inr sc
          else (case getattr (status r) of
                  Inl e \<Rightarrow> Inl e
                | Inr st \<Rightarrow> if py_truthy st then Inr st else Inr (PInt 0)))"

text \<open>
  Lines 109 to 127: code, text and \<^verbatim>\<open>_errors\<close> from the message. \<^verbatim>\<open>errors\<close> is handed
  to the flattener whenever it is truthy, and the flattener starts with
  \<^verbatim>\<open>d.items()\<close>, which only a dict has.
\<close>

definition read_message ::
  "(pyval \<Rightarrow> string) \<Rightarrow> pyval \<Rightarrow> py_error + (pyval \<times> pyval \<times> pyval option)" where
  "read_message repr message =
     (case message of
        PDict m \<Rightarrow>
          (let code = dict_get m ''code'' (PInt 0);
               base = dict_get m ''message'' (PStr []);
               errors = dict_get m ''errors'' PNone
           in if py_truthy errors then
                (case errors of
                   PDict ed \<Rightarrow>
                     (case flatten_error_dict ed [] of
                        Inl e \<Rightarrow> Inl e
                      | Inr flat \<Rightarrow>
                          (case helpful repr flat of
                             Inl e \<Rightarrow> Inl e
                           | Inr h \<Rightarrow>
                               (case str_add base ([CHR 0x0A] @ h) of
                                  Inl e \<Rightarrow> Inl e
                                | Inr t \<Rightarrow> Inr (code, t, Some errors))))
                 | _ \<Rightarrow> Inl AttributeError)
              else Inr (code, base, Some errors))
      | _ \<Rightarrow> Inr (PInt 0, py_or message (PStr []), None))"

text \<open>
  \<^verbatim>\<open>HTTPException.__init__\<close> (lines 96 to 134). The format string reads
  \<^verbatim>\<open>status_code\<close> and \<^verbatim>\<open>reason\<close> from the response.
\<close>

definition HTTPException_init ::
  "(pyval \<Rightarrow> string) \<Rightarrow> response \<Rightarrow> pyval \<Rightarrow> py_error + http_exception" where
  "HTTPException_init repr r message =
     (case read_status r of
        Inl e \<Rightarrow> Inl e
      | Inr st \<Rightarrow>
          (case read_message repr message of
             Inl e \<Rightarrow> Inl e
           | Inr (code, txt, errs) \<Rightarrow>
               (case py_len txt of
                  Inl e \<Rightarrow> Inl e
                | Inr n \<Rightarrow>
                    (case getattr (status_code r) of
                       Inl e \<Rightarrow> Inl e
                     | Inr sc \<Rightarrow>
                         (case getattr (reason r) of
                            Inl e \<Rightarrow> Inl e
                          | Inr rs \<Rightarrow>
                              Inr \<lparr>exc_response = r, exc_status = st, exc_code = code,
                                   exc_text = txt, exc_errors = errs,
                                   exc_message =
                                     py_str repr sc @ '' '' @ py_str repr rs
                                     @ '' (error code: '' @ py_str repr code @ '')''
                                     @ (if n \<noteq> 0 then '': '' @ py_str repr txt else [])\<rparr>)))))"

section \<open>The classes and \<^verbatim>\<open>RateLimited\<close>\<close>

text \<open>
  The class statements of \<^verbatim>\<open>ext/errors/base_errors.py\<close>, each with the one base
  it names; \<^verbatim>\<open>Exception\<close> is the builtin they all end in.
\<close>

datatype py_class =
    Exception
  | ChatBotException
  | ClientException
  | GatewayNotFound
  | HTTPException
  | RateLimited
  | Forbidden
  | ServerError
  | InvalidData
  | LoginFailure
  | ConnectionClose

fun base_class :: "py_class \<Rightarrow> py_class option" where
  "base_class Exception = None"
| "base_class ChatBotException = Some Exception"
| "base_class ClientException = Some ChatBotException"
| "base_class GatewayNotFound = Some ChatBotException"
| "base_class HTTPException = Some ChatBotException"
| "base_class RateLimited = Some ChatBotException"
| "base_class Forbidden = Some HTTPException"
| "base_class ServerError = Some HTTPException"
| "base_class InvalidData = Some ClientException"
| "base_class LoginFailure = Some ClientException"
| "base_class ConnectionClose = Some ClientException"

text \<open>The number of class statements between a class and \<^verbatim>\<open>Exception\<close>.\<close>

fun depth :: "py_class \<Rightarrow> nat" where
  "depth Exception = 0"
| "depth ChatBotException = 1"
| "depth ClientException = 2"
| "depth GatewayNotFound = 2"
| "depth HTTPException = 2"
| "depth RateLimited = 2"
| "depth c = 3"

text \<open>
  The method resolution order of a class: with one base per class statement it is the
  chain of bases. \<^verbatim>\<open>issubclass(c, d)\<close> holds when \<open>d\<close> is on the chain of \<open>c\<close>.
\<close>

function mro :: "py_class \<Rightarrow> py_class list" where
  "mro c = c # (case base_class c of None \<Rightarrow> [] | Some b \<Rightarrow> mro b)"
  by pat_completeness auto
termination
proof (relation "measure depth")
  show "wf (measure depth)" by simp
next
  fix c b
  assume "base_class c = Some b"
  then show "(b, c) \<in> measure depth" by (cases c) auto
qed

definition is_sub :: "py_class \<Rightarrow> py_class \<Rightarrow> bool" where
  "is_sub c d = (d \<in> set (mro c))"

text \<open>
  The names a class statement binds in its body: \<^verbatim>\<open>__init__\<close> where the class defines
  one, nothing where the body is \<^verbatim>\<open>pass\<close>. For the builtin \<^verbatim>\<open>Exception\<close> these are
  its public names; the double-underscore names that every class has are left out.
\<close>

fun class_body :: "py_class \<Rightarrow> string list" where
  "class_body Exception = [''args'', ''with_traceback'', ''add_note'']"
| "class_body ChatBotException = []"
| "class_body ClientException = []"
| "class_body c = [''__init__'']"

text \<open>
  A Python \<^verbatim>\<open>float\<close>: \<open>Finite s m e\<close> is the number \<open>m * 2 ^ e\<close>, negative when
  \<open>s\<close> holds (every finite double is of this form), beside the infinities and
  \<^verbatim>\<open>nan\<close>.
\<close>

datatype py_float = Finite bool nat int | Infinity bool | NaN

text \<open>The decimal digits of a natural number.\<close>

function dec :: "nat \<Rightarrow> string" where
  "dec n = (if n < 10 then [''0123456789'' ! n]
            else dec (n div 10) @ [''0123456789'' ! (n mod 10)])"
  by pat_completeness auto
termination
  by (relation "measure id") auto

text \<open>
  \<open>n / d\<close> rounded to the nearest integer, a tie going to the even one, and the
  hundredths of \<open>m * 2 ^ e\<close> rounded so.
\<close>

definition round_half_even :: "nat \<Rightarrow> nat \<Rightarrow> nat" where
  "round_half_even n d =
     (let q = n div d; r = n mod d
      in if d < 2 * r \<or> (2 * r = d \<and> odd q) then q + 1 else q)"

definition hundredths :: "nat \<Rightarrow> int \<Rightarrow> nat" where
  "hundredths m e =
     (if 0 \<le> e then m * 100 * 2 ^ nat e else round_half_even (m * 100) (2 ^ nat (- e)))"

text \<open>
  \<^verbatim>\<open>f'{x:.2f}'\<close>: the exact value of the float, correctly rounded to two decimal
  places. The sign is kept when the digits round to zero.
\<close>

fun format_2f :: "py_float \<Rightarrow> string" where
  "format_2f (Finite s m e) =
     (let q = hundredths m e
      in (if s then ''-'' else []) @ dec (q div 100) @ ''.''
         @ [''0123456789'' ! (q mod 100 div 10), ''0123456789'' ! (q mod 10)])"
| "format_2f (Infinity s) = (if s then ''-'' else []) @ ''inf''"
| "format_2f NaN = ''nan''"

text \<open>
  An exception object: its class, the attributes that \<^verbatim>\<open>__init__\<close> assigns on
  \<^verbatim>\<open>self\<close>, and the message handed to \<^verbatim>\<open>Exception.__init__\<close>.
\<close>

record py_object =
  obj_class :: py_class
  obj_dict :: "(string \<times> py_float) list"
  obj_message :: string

text \<open>\<^verbatim>\<open>RateLimited.__init__\<close> (lines 154 to 156).\<close>

definition RateLimited_init :: "py_float \<Rightarrow> py_object" where
  "RateLimited_init retry_after =
     \<lparr>obj_class = RateLimited,
      obj_dict = [(''retry_after'', retry_after)],
      obj_message = ''Too many requests. Retry in '' @ format_2f retry_after\<rparr>"

text \<open>
  \<^verbatim>\<open>hasattr(obj, name)\<close>: the name is an attribute of the object itself or is bound
  in the body of a class on the chain of its class.
\<close>

definition hasattr :: "py_object \<Rightarrow> string \<Rightarrow> bool" where
  "hasattr obj name =
     (name \<in> set (map fst (obj_dict obj))
      \<or> list_ex (\<lambda>c. name \<in> set (class_body c)) (mro (obj_class obj)))"

section \<open>Notions of the specification\<close>

text \<open>
  The specification describes the flattened value of an \<^verbatim>\<open>_errors\<close> list as the
  space-joined concatenation of each record's \<^verbatim>\<open>message\<close> field, a missing field
  counting as the empty string. The next definitions follow these words, not the code.
\<close>

fun join_strs :: "string \<Rightarrow> string list \<Rightarrow> string" where
  "join_strs sep [] = []"
| "join_strs sep [s] = s"
| "join_strs sep (s # t # ts) = s @ sep @ join_strs sep (t # ts)"

fun message_of :: "pyval \<Rightarrow> string" where
  "message_of (PDict x) = (case map_of x ''message'' of Some (PStr s) \<Rightarrow> s | _ \<Rightarrow> [])"
| "message_of v = []"

text \<open>A record of an \<^verbatim>\<open>_errors\<close> list: a dict whose \<^verbatim>\<open>message\<close>, when it has one, is a string.\<close>

fun error_record :: "pyval \<Rightarrow> bool" where
  "error_record (PDict x) = (case map_of x ''message'' of None \<Rightarrow> True | Some m \<Rightarrow> is_str m)"
| "error_record v = False"

text \<open>A record without the \<^verbatim>\<open>message\<close> field.\<close>

fun lacks_message :: "pyval \<Rightarrow> bool" where
  "lacks_message (PDict x) = (map_of x ''message'' = None)"
| "lacks_message v = False"

fun is_list :: "pyval \<Rightarrow> bool" where
  "is_list (PList xs) = True"
| "is_list v = False"

text \<open>
  Every scalar leaf of an error tree is a string. A dict with the key \<^verbatim>\<open>_errors\<close> is a
  leaf of the tree, whatever else it holds.
\<close>

function str_leaves :: "pydict \<Rightarrow> bool" where
  "str_leaves [] = True"
| "str_leaves ((k, v) # d) =
     ((case v of
         PDict vd \<Rightarrow> (case map_of vd ''_errors'' of None \<Rightarrow> str_leaves vd | Some errs \<Rightarrow> True)
       | _ \<Rightarrow> is_str v)
      \<and> str_leaves d)"
  by pat_completeness auto
termination
  by (relation "measure (size_list (size_prod (\<lambda>_. 0) size))") auto

text \<open>
  The theorems on \<^verbatim>\<open>HTTPException\<close> hold for every function in the place of
  \<^verbatim>\<open>repr\<close>. Their closed instances take this one, so that nothing in them rests on
  how Python prints a value that is not a string.
\<close>

definition no_repr :: "pyval \<Rightarrow> string" where
  "no_repr v = ''?''"

section \<open>Auxiliary facts\<close>

subsection \<open>\<^verbatim>\<open>dict(items)\<close>\<close>

lemma update_fresh: "k \<notin> fst ` set acc \<Longrightarrow> AList.update k v acc = acc @ [(k, v)]"
  by (induction acc) auto

lemma fold_update_distinct:
  "distinct (map fst (acc @ xs)) \<Longrightarrow> fold (\<lambda>(k, v) d. AList.update k v d) xs acc = acc @ xs"
proof (induction xs arbitrary: acc)
  case Nil
  then show ?case by simp
next
  case (Cons x xs)
  obtain k v where x: "x = (k, v)" by (cases x)
  from Cons.prems have fresh: "k \<notin> fst ` set acc" by (auto simp: x)
  from Cons.prems have "distinct (map fst ((acc @ [(k, v)]) @ xs))" by (auto simp: x)
  from Cons.IH[OF this] show ?case by (simp add: x update_fresh[OF fresh])
qed

lemma py_dict_distinct: "distinct (map fst xs) \<Longrightarrow> py_dict xs = xs"
  using fold_update_distinct[of "[]" xs] by (simp add: py_dict_def)

lemma distinct_fold_update:
  "distinct (map fst acc) \<Longrightarrow> distinct (map fst (fold (\<lambda>(k, v) d. AList.update k v d) xs acc))"
proof (induction xs arbitrary: acc)
  case Nil
  then show ?case by simp
next
  case (Cons x xs)
  obtain k v where x: "x = (k, v)" by (cases x)
  from Cons.prems have "distinct (map fst (AList.update k v acc))"
    by (rule distinct_update)
  from Cons.IH[OF this] show ?case by (simp add: x)
qed

lemma distinct_py_dict: "distinct (map fst (py_dict xs))"
  using distinct_fold_update[of "[]" xs] by (simp add: py_dict_def)

lemma py_dict_idem: "py_dict (py_dict xs) = py_dict xs"
  by (rule py_dict_distinct) (rule distinct_py_dict)

lemma set_update_subset: "set (AList.update k v al) \<subseteq> insert (k, v) (set al)"
  by (induction al) auto

lemma set_fold_update:
  "set (fold (\<lambda>(k, v) d. AList.update k v d) xs acc) \<subseteq> set xs \<union> set acc"
proof (induction xs arbitrary: acc)
  case Nil
  show ?case by simp
next
  case (Cons x xs)
  obtain k v where x: "x = (k, v)" by (cases x)
  have "set (fold (\<lambda>(k, v) d. AList.update k v d) xs (AList.update k v acc))
          \<subseteq> set xs \<union> set (AList.update k v acc)"
    by (rule Cons.IH)
  also have "\<dots> \<subseteq> set xs \<union> insert (k, v) (set acc)"
    using set_update_subset[of k v acc] by blast
  finally show ?case by (auto simp: x)
qed

lemma set_py_dict: "set (py_dict xs) \<subseteq> set xs"
  using set_fold_update[of xs "[]"] by (simp add: py_dict_def)

lemma list_all_py_dict: "list_all P xs \<Longrightarrow> list_all P (py_dict xs)"
  using set_py_dict[of xs] by (auto simp: list_all_iff)

subsection \<open>The loop of the flattener, entry by entry\<close>

lemma flatten_items_append:
  "flatten_items (d1 @ d2) key =
     (case flatten_items d1 key of
        Inl e \<Rightarrow> Inl e
      | Inr a \<Rightarrow> (case flatten_items d2 key of Inl e \<Rightarrow> Inl e | Inr b \<Rightarrow> Inr (a @ b)))"
proof (induction d1)
  case Nil
  show ?case by (simp split: sum.splits)
next
  case (Cons x d1)
  obtain k v where x: "x = (k, v)" by (cases x)
  show ?case unfolding x using Cons.IH
    by (simp split: pyval.splits option.splits sum.splits)
qed

lemma flatten_items_insert:
  assumes "flatten_items d1 key = Inr a" and "flatten_items [(k, v)] key = Inr m"
    and "flatten_items d2 key = Inr b"
  shows "flatten_items (d1 @ (k, v) # d2) key = Inr (a @ m @ b)"
proof -
  have "flatten_items ((k, v) # d2) key = Inr (m @ b)"
    using flatten_items_append[of "[(k, v)]" d2 key] assms(2,3) by simp
  then show ?thesis
    using flatten_items_append[of d1 "(k, v) # d2" key] assms(1) by simp
qed

subsection \<open>Joining the messages\<close>

lemma str_join_strs: "str_join sep (map PStr ss) = Inr (join_strs sep ss)"
  by (induction sep ss rule: join_strs.induct) simp_all

lemma get_messages_records:
  "list_all error_record recs \<Longrightarrow> get_messages recs = Inr (map (\<lambda>x. PStr (message_of x)) recs)"
proof (induction recs)
  case Nil
  show ?case by simp
next
  case (Cons x recs)
  then show ?case
    by (cases x) (auto simp: dict_get_def split: option.splits pyval.splits)
qed

lemma join_messages_records:
  assumes "list_all error_record recs"
  shows "join_messages (PList recs) = Inr (join_strs '' '' (map message_of recs))"
proof -
  have "get_messages recs = Inr (map PStr (map message_of recs))"
    using get_messages_records[OF assms] by (simp add: comp_def)
  then show ?thesis
    unfolding join_messages_def by (simp only: py_iter.simps sum.case str_join_strs)
qed

lemma lacks_message_record: "lacks_message x \<Longrightarrow> error_record x \<and> message_of x = []"
  by (cases x) auto

lemma join_strs_empty: "join_strs '' '' (replicate n []) = replicate (n - 1) CHR '' ''"
proof (induction n)
  case 0
  show ?case by simp
next
  case (Suc n)
  then show ?case by (cases n) simp_all
qed

subsection \<open>String leaves give string values\<close>

lemma flatten_items_str_leaves:
  "str_leaves d \<Longrightarrow> flatten_items d key = Inr r \<Longrightarrow> list_all (\<lambda>(p, m). is_str m) r"
proof (induction d key arbitrary: r rule: flatten_items.induct)
  case (1 key)
  then show ?case by simp
next
  case (2 k v d key)
  show ?case
  proof (cases v)
    case (PDict vd)
    show ?thesis
    proof (cases "map_of vd ''_errors''")
      case None
      from "2.prems" PDict None obtain sub rest where
        sub: "flatten_items vd (new_key key k) = Inr sub" and
        rest: "flatten_items d key = Inr rest" and r: "r = py_dict sub @ rest"
        by (auto split: sum.splits)
      from "2.prems"(1) PDict None have "str_leaves vd" "str_leaves d" by simp_all
      with "2.IH"(6)[OF PDict None _ sub] "2.IH"(7)[OF PDict None sub _ rest]
      have "list_all (\<lambda>(p, m). is_str m) sub" "list_all (\<lambda>(p, m). is_str m) rest" by simp_all
      then show ?thesis by (simp add: r list_all_py_dict)
    next
      case (Some errs)
      from "2.prems" PDict Some obtain s rest where
        s: "join_messages errs = Inr s" and
        rest: "flatten_items d key = Inr rest" and r: "r = (new_key key k, PStr s) # rest"
        by (auto split: sum.splits)
      from "2.prems"(1) PDict Some have "str_leaves d" by simp
      with "2.IH"(8)[OF PDict Some s _ rest] show ?thesis by (simp add: r)
    qed
  next
    case PNone
    with "2.prems" show ?thesis by simp
  next
    case (PBool b)
    with "2.prems" show ?thesis by simp
  next
    case (PInt i)
    with "2.prems" show ?thesis by simp
  next
    case (PStr s)
    from "2.prems" PStr obtain rest where
      rest: "flatten_items d key = Inr rest" and r: "r = (new_key key k, v) # rest"
      by (auto split: sum.splits)
    from "2.prems"(1) PStr have "str_leaves d" by simp
    with "2.IH"(4)[OF PStr _ rest] show ?thesis by (simp add: r PStr)
  next
    case (PList xs)
    with "2.prems" show ?thesis by simp
  qed
qed

subsection \<open>One entry of the mapping\<close>

lemma flatten_error_dict_insert:
  assumes "flatten_items d1 key = Inr a" and "flatten_items [(k, v)] key = Inr m"
    and "flatten_items d2 key = Inr b"
  shows "flatten_error_dict (d1 @ (k, v) # d2) key = Inr (py_dict (a @ m @ b))"
  using flatten_items_insert[OF assms] by (simp add: flatten_error_dict_def)

lemma flatten_items_errors_entry:
  assumes "map_of vd ''_errors'' = Some (PList recs)" and "list_all error_record recs"
  shows "flatten_items [(k, PDict vd)] key =
           Inr [(new_key key k, PStr (join_strs '' '' (map message_of recs)))]"
  using assms by (simp add: join_messages_records)

lemma flatten_items_nested_entry:
  assumes "map_of vd ''_errors'' = None" and "flatten_error_dict vd (new_key key k) = Inr sub"
  shows "flatten_items [(k, PDict vd)] key = Inr sub"
proof -
  from assms(2) obtain s where s: "flatten_items vd (new_key key k) = Inr s"
    and sub: "sub = py_dict s"
    by (auto simp: flatten_error_dict_def split: sum.splits)
  show ?thesis using assms(1) s sub by simp
qed

lemma flatten_items_scalar_entry:
  "\<not> is_dict v \<Longrightarrow> flatten_items [(k, v)] key = Inr [(new_key key k, v)]"
  by (cases v) simp_all

lemma py_dict_single: "py_dict [(p, m)] = [(p, m)]"
  by (simp add: py_dict_def)

lemma flatten_items_flat:
  "list_all (\<lambda>(k, v). \<not> is_dict v) d \<Longrightarrow> flatten_items d [] = Inr d"
proof (induction d)
  case Nil
  show ?case by simp
next
  case (Cons x d)
  obtain k v where x: "x = (k, v)" by (cases x)
  from Cons.prems have v: "\<not> is_dict v" and d: "list_all (\<lambda>(k, v). \<not> is_dict v) d"
    by (simp_all add: x)
  from v Cons.IH[OF d] show ?case unfolding x by (cases v) (simp_all add: new_key_def)
qed

lemma errors_flatten_items_eq: "errors_flatten_items d key = flatten_items d key"
proof (induction d key rule: flatten_items.induct)
  case (1 key)
  show ?case by simp
next
  case (2 k v d key)
  then show ?case by (simp split: pyval.splits option.splits sum.splits)
qed

subsection \<open>Constructing the exception\<close>

lemma helpful_lines:
  "helpful repr flat =
     Inr (join_strs [CHR 0x0A] (map (\<lambda>(p, m). ''In '' @ p @ '': '' @ py_str repr m) flat))"
proof -
  have "map (\<lambda>(p, m). PStr (''In '' @ p @ '': '' @ py_str repr m)) flat =
        map PStr (map (\<lambda>(p, m). ''In '' @ p @ '': '' @ py_str repr m) flat)"
    by (simp add: comp_def case_prod_unfold)
  then show ?thesis unfolding helpful_def by (simp only: str_join_strs)
qed

lemma read_status_attr: "read_status r = Inr st \<Longrightarrow> \<exists>sc. status_code r = Some sc"
  by (cases "status_code r") (simp_all add: read_status_def getattr_def)

lemma flatten_username:
  "flatten_error_dict [(''username'', PDict [(''_errors'', PList [PDict [(''message'', PStr ''too short'')]])])] []
     = Inr [(''username'', PStr ''too short'')]"
  by (simp add: flatten_error_dict_def join_messages_def dict_get_def new_key_def py_dict_def)

subsection \<open>Decimal digits\<close>

lemma dec_digit: "n < 10 \<Longrightarrow> dec n = [''0123456789'' ! n]"
  by (subst dec.simps) simp

section \<open>The claims\<close>

text \<open>
  Claim C1. Let the status and the reason of the response be readable. For a structured
  body whose \<^verbatim>\<open>message\<close> is a string and whose \<^verbatim>\<open>errors\<close> is a non-empty mapping
  that flattens, constructing \<^verbatim>\<open>HTTPException\<close> completes, sets \<^verbatim>\<open>code\<close> to the
  body's \<^verbatim>\<open>code\<close> (default 0) and sets \<^verbatim>\<open>text\<close> to the base message, a newline, and
  one line \<^verbatim>\<open>In {path}: {msg}\<close> per flattened pair, in order, joined by newlines. For
  the body \<^verbatim>\<open>{"code": 50035, "message": "Invalid Form Body", "errors": {"username":
  {"_errors": [{"message": "too short"}]}}}\<close> the text is
  \<^verbatim>\<open>"Invalid Form Body\nIn username: too short"\<close> and the code is 50035.
\<close>

theorem http_exception_structured_body:
  assumes "read_status r = Inr st" and "reason r = Some rs"
  shows "(\<forall>m base ed flat.
            map_of m ''message'' = Some (PStr base) \<and> map_of m ''errors'' = Some (PDict ed)
            \<and> ed \<noteq> [] \<and> flatten_error_dict ed [] = Inr flat \<longrightarrow>
            (case HTTPException_init repr r (PDict m) of
               Inl err \<Rightarrow> False
             | Inr e \<Rightarrow>
                 exc_code e = dict_get m ''code'' (PInt 0) \<and>
                 exc_text e =
                   PStr (base @ [CHR 0x0A]
                         @ join_strs [CHR 0x0A]
                             (map (\<lambda>(p, msg). ''In '' @ p @ '': '' @ py_str repr msg) flat))))
       \<and> (case HTTPException_init repr r
                 (PDict [(''code'', PInt 50035), (''message'', PStr ''Invalid Form Body''),
                         (''errors'',
                          PDict [(''username'',
                                  PDict [(''_errors'',
                                          PList [PDict [(''message'', PStr ''too short'')]])])])]) of
             Inl err \<Rightarrow> False
           | Inr e \<Rightarrow>
               exc_code e = PInt 50035 \<and>
               exc_text e = PStr (''Invalid Form Body'' @ [CHR 0x0A] @ ''In username: too short''))"
proof -
  from assms(1) obtain sc where sc: "status_code r = Some sc"
    using read_status_attr by blast
  have general: "\<And>m base ed flat.
      map_of m ''message'' = Some (PStr base) \<Longrightarrow> map_of m ''errors'' = Some (PDict ed) \<Longrightarrow>
      ed \<noteq> [] \<Longrightarrow> flatten_error_dict ed [] = Inr flat \<Longrightarrow>
      HTTPException_init repr r (PDict m) =
        Inr \<lparr>exc_response = r, exc_status = st, exc_code = dict_get m ''code'' (PInt 0),
             exc_text = PStr (base @ [CHR 0x0A]
                         @ join_strs [CHR 0x0A]
                             (map (\<lambda>(p, msg). ''In '' @ p @ '': '' @ py_str repr msg) flat)),
             exc_errors = Some (PDict ed),
             exc_message = py_str repr sc @ '' '' @ py_str repr rs
                @ '' (error code: '' @ py_str repr (dict_get m ''code'' (PInt 0)) @ '')''
                @ '': '' @ base @ [CHR 0x0A]
                         @ join_strs [CHR 0x0A]
                             (map (\<lambda>(p, msg). ''In '' @ p @ '': '' @ py_str repr msg) flat)\<rparr>"
    by (simp add: HTTPException_init_def read_message_def assms sc getattr_def dict_get_def
        helpful_lines str_add_def py_str_def)
  have first: "\<forall>m base ed flat.
            map_of m ''message'' = Some (PStr base) \<and> map_of m ''errors'' = Some (PDict ed)
            \<and> ed \<noteq> [] \<and> flatten_error_dict ed [] = Inr flat \<longrightarrow>
            (case HTTPException_init repr r (PDict m) of
               Inl err \<Rightarrow> False
             | Inr e \<Rightarrow>
                 exc_code e = dict_get m ''code'' (PInt 0) \<and>
                 exc_text e =
                   PStr (base @ [CHR 0x0A]
                         @ join_strs [CHR 0x0A]
                             (map (\<lambda>(p, msg). ''In '' @ p @ '': '' @ py_str repr msg) flat)))"
    using general by simp
  have second: "(case HTTPException_init repr r
                 (PDict [(''code'', PInt 50035), (''message'', PStr ''Invalid Form Body''),
                         (''errors'',
                          PDict [(''username'',
                                  PDict [(''_errors'',
                                          PList [PDict [(''message'', PStr ''too short'')]])])])]) of
             Inl err \<Rightarrow> False
           | Inr e \<Rightarrow>
               exc_code e = PInt 50035 \<and>
               exc_text e = PStr (''Invalid Form Body'' @ [CHR 0x0A] @ ''In username: too short''))"
    using general[OF _ _ _ flatten_username, of _ "''Invalid Form Body''"]
    by (simp add: dict_get_def py_str_def)
  from first second show ?thesis by (rule conjI)
qed

theorem http_exception_structured_body_witness:
  "read_status \<lparr>status_code = Some (PInt 400), status = None, reason = Some (PStr ''Bad Request'')\<rparr>
     = Inr (PInt 400)
   \<and> reason \<lparr>status_code = Some (PInt 400), status = None, reason = Some (PStr ''Bad Request'')\<rparr>
     = Some (PStr ''Bad Request'')
   \<and> (case HTTPException_init no_repr
             \<lparr>status_code = Some (PInt 400), status = None, reason = Some (PStr ''Bad Request'')\<rparr>
             (PDict [(''code'', PInt 50035), (''message'', PStr ''Invalid Form Body''),
                     (''errors'',
                      PDict [(''username'',
                              PDict [(''_errors'',
                                      PList [PDict [(''message'', PStr ''too short'')]])])])]) of
         Inl err \<Rightarrow> False
       | Inr e \<Rightarrow>
           exc_code e = PInt 50035 \<and>
           exc_text e = PStr (''Invalid Form Body'' @ [CHR 0x0A] @ ''In username: too short''))"
proof -
  have s: "read_status \<lparr>status_code = Some (PInt 400), status = None, reason = Some (PStr ''Bad Request'')\<rparr>
     = Inr (PInt 400)"
    by (simp add: read_status_def getattr_def)
  have t: "reason \<lparr>status_code = Some (PInt 400), status = None, reason = Some (PStr ''Bad Request'')\<rparr>
     = Some (PStr ''Bad Request'')"
    by simp
  from http_exception_structured_body[OF s t, of no_repr] s t show ?thesis by blast
qed

text \<open>
  Claim C2. Let a mapping value \<open>v\<close> hold the key \<^verbatim>\<open>_errors\<close> with a list of records,
  each a dict whose \<^verbatim>\<open>message\<close>, when present, is a string. Wherever the entry
  \<open>(k, v)\<close> stands in the mapping, the loop appends for it the single item
  \<open>(new_key key k, m)\<close>, where \<open>m\<close> is the space-joined concatenation of the records'
  messages (a missing one counting as empty), between the items \<open>a\<close> of the entries
  before and the items \<open>b\<close> of the entries after. Nothing else of \<open>v\<close> is read. In
  particular \<^verbatim>\<open>{"a": {"_errors": [{"message": "bad"}, {"message": "worse"}]}}\<close>
  flattens to \<^verbatim>\<open>{"a": "bad worse"}\<close>.
\<close>

theorem flatten_errors_leaf:
  assumes "map_of vd ''_errors'' = Some (PList recs)" and "list_all error_record recs"
    and "flatten_items d1 key = Inr a" and "flatten_items d2 key = Inr b"
  shows "flatten_error_dict (d1 @ (k, PDict vd) # d2) key =
           Inr (py_dict (a @ (new_key key k, PStr (join_strs '' '' (map message_of recs))) # b))
       \<and> flatten_error_dict [(k, PDict vd)] key =
           Inr [(new_key key k, PStr (join_strs '' '' (map message_of recs)))]
       \<and> flatten_error_dict
           [(''a'', PDict [(''_errors'', PList [PDict [(''message'', PStr ''bad'')],
                                               PDict [(''message'', PStr ''worse'')]])])] []
           = Inr [(''a'', PStr ''bad worse'')]"
proof -
  note entry = flatten_items_errors_entry[OF assms(1,2), of k key]
  have "flatten_error_dict (d1 @ (k, PDict vd) # d2) key =
           Inr (py_dict (a @ (new_key key k, PStr (join_strs '' '' (map message_of recs))) # b))"
    using flatten_error_dict_insert[OF assms(3) entry assms(4)] by simp
  moreover have "flatten_error_dict [(k, PDict vd)] key =
           Inr [(new_key key k, PStr (join_strs '' '' (map message_of recs)))]"
    using entry by (simp add: flatten_error_dict_def py_dict_single)
  moreover have "flatten_error_dict
           [(''a'', PDict [(''_errors'', PList [PDict [(''message'', PStr ''bad'')],
                                               PDict [(''message'', PStr ''worse'')]])])] []
           = Inr [(''a'', PStr ''bad worse'')]"
    by (simp add: flatten_error_dict_def join_messages_def dict_get_def new_key_def py_dict_def)
  ultimately show ?thesis by blast
qed

theorem flatten_errors_leaf_witness:
  "flatten_error_dict
     [(''x'', PStr ''no''),
      (''a'', PDict [(''_errors'', PList [PDict [(''message'', PStr ''bad'')], PDict []]),
                     (''deep'', PDict [(''_errors'', PInt 5)])]),
      (''y'', PStr ''yes'')] ''form''
   = Inr [(''form.x'', PStr ''no''), (''form.a'', PStr ''bad ''), (''form.y'', PStr ''yes'')]"
proof -
  have 1: "map_of [(''_errors'', PList [PDict [(''message'', PStr ''bad'')], PDict []]),
                   (''deep'', PDict [(''_errors'', PInt 5)])] ''_errors''
            = Some (PList [PDict [(''message'', PStr ''bad'')], PDict []])"
    by simp
  have 2: "list_all error_record [PDict [(''message'', PStr ''bad'')], PDict []]" by simp
  have 3: "flatten_items [(''x'', PStr ''no'')] ''form'' = Inr [(''form.x'', PStr ''no'')]"
    by (simp add: new_key_def)
  have 4: "flatten_items [(''y'', PStr ''yes'')] ''form'' = Inr [(''form.y'', PStr ''yes'')]"
    by (simp add: new_key_def)
  from flatten_errors_leaf[OF 1 2 3 4, of "''a''"] show ?thesis
    by (simp add: new_key_def py_dict_def)
qed

text \<open>
  Claim C3. Let a mapping value \<open>v\<close> be a mapping without the key \<^verbatim>\<open>_errors\<close>, and let
  the flattener return \<open>sub\<close> on \<open>v\<close> with the prefix \<open>new_key key k\<close>, which is
  \<open>k\<close> for the empty prefix and \<open>key + "." + k\<close> otherwise. Then the items of
  \<open>sub\<close> are merged at the place of the entry \<open>(k, v)\<close>. In particular
  \<^verbatim>\<open>{"a": {"b": "x"}}\<close> flattens to \<^verbatim>\<open>{"a.b": "x"}\<close>, and the empty mapping to the empty
  mapping.
\<close>

theorem flatten_nested_mapping:
  assumes "map_of vd ''_errors'' = None" and "flatten_error_dict vd (new_key key k) = Inr sub"
    and "flatten_items d1 key = Inr a" and "flatten_items d2 key = Inr b"
  shows "flatten_error_dict (d1 @ (k, PDict vd) # d2) key = Inr (py_dict (a @ sub @ b))
       \<and> flatten_error_dict [(k, PDict vd)] key = Inr sub
       \<and> new_key key k = (if key = [] then k else key @ ''.'' @ k)
       \<and> flatten_error_dict [(''a'', PDict [(''b'', PStr ''x'')])] [] = Inr [(''a.b'', PStr ''x'')]
       \<and> flatten_error_dict [] key = Inr []"
proof -
  note entry = flatten_items_nested_entry[OF assms(1,2)]
  from assms(2) have sub: "py_dict sub = sub"
    by (auto simp: flatten_error_dict_def py_dict_idem split: sum.splits)
  have "flatten_error_dict (d1 @ (k, PDict vd) # d2) key = Inr (py_dict (a @ sub @ b))"
    by (rule flatten_error_dict_insert[OF assms(3) entry assms(4)])
  moreover have "flatten_error_dict [(k, PDict vd)] key = Inr sub"
    using entry sub by (simp add: flatten_error_dict_def)
  moreover have "new_key key k = (if key = [] then k else key @ ''.'' @ k)"
    by (simp add: new_key_def)
  moreover have "flatten_error_dict [(''a'', PDict [(''b'', PStr ''x'')])] [] = Inr [(''a.b'', PStr ''x'')]"
    by (simp add: flatten_error_dict_def new_key_def py_dict_def)
  moreover have "flatten_error_dict [] key = Inr []"
    by (simp add: flatten_error_dict_def py_dict_def)
  ultimately show ?thesis by blast
qed

theorem flatten_nested_mapping_witness:
  "flatten_error_dict
     [(''x'', PStr ''no''),
      (''a'', PDict [(''b'', PStr ''p''), (''c'', PDict [(''d'', PStr ''q'')])]),
      (''y'', PStr ''yes'')] ''form''
   = Inr [(''form.x'', PStr ''no''), (''form.a.b'', PStr ''p''), (''form.a.c.d'', PStr ''q''),
          (''form.y'', PStr ''yes'')]"
proof -
  have 1: "map_of [(''b'', PStr ''p''), (''c'', PDict [(''d'', PStr ''q'')])] ''_errors'' = None"
    by simp
  have 2: "flatten_error_dict [(''b'', PStr ''p''), (''c'', PDict [(''d'', PStr ''q'')])]
             (new_key ''form'' ''a'')
           = Inr [(''form.a.b'', PStr ''p''), (''form.a.c.d'', PStr ''q'')]"
    by (simp add: flatten_error_dict_def new_key_def py_dict_def)
  have 3: "flatten_items [(''x'', PStr ''no'')] ''form'' = Inr [(''form.x'', PStr ''no'')]"
    by (simp add: new_key_def)
  have 4: "flatten_items [(''y'', PStr ''yes'')] ''form'' = Inr [(''form.y'', PStr ''yes'')]"
    by (simp add: new_key_def)
  from flatten_nested_mapping[OF 1 2 3 4] show ?thesis
    by (simp add: py_dict_def)
qed

text \<open>
  Claim C4. With \<^verbatim>\<open>status_code = 403\<close> and no \<^verbatim>\<open>status\<close> attribute the constructor
  sets \<^verbatim>\<open>status\<close> to 403. With \<^verbatim>\<open>status = 403\<close> and no \<^verbatim>\<open>status_code\<close> attribute,
  the shape of an \<^verbatim>\<open>aiohttp.ClientResponse\<close>, the test \<^verbatim>\<open>if response.status_code:\<close>
  of line 98 raises \<^verbatim>\<open>AttributeError\<close> before the \<^verbatim>\<open>elif\<close> that reads
  \<^verbatim>\<open>response.status\<close> is reached: the fallback does not work this way round.
\<close>

theorem http_exception_status_fallback:
  "(case HTTPException_init repr
           \<lparr>status_code = Some (PInt 403), status = None, reason = Some (PStr ''Forbidden'')\<rparr> PNone of
      Inl err \<Rightarrow> False
    | Inr e \<Rightarrow> exc_status e = PInt 403)
   \<and> HTTPException_init repr
        \<lparr>status_code = None, status = Some (PInt 403), reason = Some (PStr ''Forbidden'')\<rparr> PNone
      = Inl AttributeError"
  by (simp add: HTTPException_init_def read_status_def read_message_def getattr_def py_or_def)

text \<open>
  Claim C5, as amended. The constructor has no handler and no \<^verbatim>\<open>str(body)\<close>. Let the
  status and the reason of the response be readable. What the construction does is then
  fixed by the shape of the body.
  \<^item> The body is no mapping: \<^verbatim>\<open>code\<close> is 0 and \<^verbatim>\<open>text\<close> is \<^verbatim>\<open>message or ''\<close>, the
    body itself; the construction completes when the body is falsy (such as \<^verbatim>\<open>None\<close>),
    a string or a list, and raises \<^verbatim>\<open>TypeError\<close> at \<^verbatim>\<open>len(self.text)\<close> when it is a
    non-zero integer or \<^verbatim>\<open>True\<close>.
  \<^item> The body is a mapping whose \<^verbatim>\<open>errors\<close> is absent or falsy: \<^verbatim>\<open>code\<close> is the body's
    \<^verbatim>\<open>code\<close> (default 0) and \<^verbatim>\<open>text\<close> is the body's \<^verbatim>\<open>message\<close> (default the empty
    string); the construction completes when that message is a string, a list or a
    mapping, and raises \<^verbatim>\<open>TypeError\<close> otherwise.
  \<^item> The body is a mapping whose \<^verbatim>\<open>errors\<close> is truthy: \<^verbatim>\<open>AttributeError\<close> when
    \<^verbatim>\<open>errors\<close> is no mapping; the exception of the flattener when it raises;
    \<^verbatim>\<open>TypeError\<close> when the message is no string; otherwise the construction completes
    with the body's \<^verbatim>\<open>code\<close> and with the message, a newline and the lines
    \<^verbatim>\<open>In {path}: {msg}\<close> as \<^verbatim>\<open>text\<close>.
\<close>

theorem http_exception_body_shapes:
  assumes "read_status r = Inr st" and "reason r = Some rs"
  shows "(\<not> is_dict message \<longrightarrow>
            (if \<not> py_truthy message \<or> is_str message \<or> is_list message
             then (case HTTPException_init repr r message of
                     Inl err \<Rightarrow> False
                   | Inr e \<Rightarrow> exc_code e = PInt 0 \<and> exc_text e = py_or message (PStr [])
                              \<and> exc_status e = st)
             else HTTPException_init repr r message = Inl TypeError))
       \<and> (\<not> py_truthy (dict_get m ''errors'' PNone) \<longrightarrow>
            (if is_str (dict_get m ''message'' (PStr [])) \<or> is_list (dict_get m ''message'' (PStr []))
                \<or> is_dict (dict_get m ''message'' (PStr []))
             then (case HTTPException_init repr r (PDict m) of
                     Inl err \<Rightarrow> False
                   | Inr e \<Rightarrow> exc_code e = dict_get m ''code'' (PInt 0)
                              \<and> exc_text e = dict_get m ''message'' (PStr [])
                              \<and> exc_status e = st)
             else HTTPException_init repr r (PDict m) = Inl TypeError))
       \<and> (py_truthy (dict_get m ''errors'' PNone) \<longrightarrow>
            (case dict_get m ''errors'' PNone of
               PDict ed \<Rightarrow>
                 (case flatten_error_dict ed [] of
                    Inl err \<Rightarrow> HTTPException_init repr r (PDict m) = Inl err
                  | Inr flat \<Rightarrow>
                      (case dict_get m ''message'' (PStr []) of
                         PStr base \<Rightarrow>
                           (case HTTPException_init repr r (PDict m) of
                              Inl err \<Rightarrow> False
                            | Inr e \<Rightarrow>
                                exc_code e = dict_get m ''code'' (PInt 0)
                                \<and> exc_text e =
                                    PStr (base @ [CHR 0x0A]
                                          @ join_strs [CHR 0x0A]
                                              (map (\<lambda>(p, msg). ''In '' @ p @ '': '' @ py_str repr msg)
                                                 flat))
                                \<and> exc_status e = st)
                       | _ \<Rightarrow> HTTPException_init repr r (PDict m) = Inl TypeError))
             | _ \<Rightarrow> HTTPException_init repr r (PDict m) = Inl AttributeError))"
proof -
  from assms(1) obtain sc where sc: "status_code r = Some sc"
    using read_status_attr by blast
  note defs = HTTPException_init_def read_message_def assms sc getattr_def
  have one: "\<not> is_dict message \<longrightarrow>
            (if \<not> py_truthy message \<or> is_str message \<or> is_list message
             then (case HTTPException_init repr r message of
                     Inl err \<Rightarrow> False
                   | Inr e \<Rightarrow> exc_code e = PInt 0 \<and> exc_text e = py_or message (PStr [])
                              \<and> exc_status e = st)
             else HTTPException_init repr r message = Inl TypeError)"
    by (cases message) (simp_all add: defs py_or_def)
  have two: "\<not> py_truthy (dict_get m ''errors'' PNone) \<longrightarrow>
            (if is_str (dict_get m ''message'' (PStr [])) \<or> is_list (dict_get m ''message'' (PStr []))
                \<or> is_dict (dict_get m ''message'' (PStr []))
             then (case HTTPException_init repr r (PDict m) of
                     Inl err \<Rightarrow> False
                   | Inr e \<Rightarrow> exc_code e = dict_get m ''code'' (PInt 0)
                              \<and> exc_text e = dict_get m ''message'' (PStr [])
                              \<and> exc_status e = st)
             else HTTPException_init repr r (PDict m) = Inl TypeError)"
    by (cases "dict_get m ''message'' (PStr [])") (simp_all add: defs Let_def)
  have three: "py_truthy (dict_get m ''errors'' PNone) \<longrightarrow>
            (case dict_get m ''errors'' PNone of
               PDict ed \<Rightarrow>
                 (case flatten_error_dict ed [] of
                    Inl err \<Rightarrow> HTTPException_init repr r (PDict m) = Inl err
                  | Inr flat \<Rightarrow>
                      (case dict_get m ''message'' (PStr []) of
                         PStr base \<Rightarrow>
                           (case HTTPException_init repr r (PDict m) of
                              Inl err \<Rightarrow> False
                            | Inr e \<Rightarrow>
                                exc_code e = dict_get m ''code'' (PInt 0)
                                \<and> exc_text e =
                                    PStr (base @ [CHR 0x0A]
                                          @ join_strs [CHR 0x0A]
                                              (map (\<lambda>(p, msg). ''In '' @ p @ '': '' @ py_str repr msg)
                                                 flat))
                                \<and> exc_status e = st)
                       | _ \<Rightarrow> HTTPException_init repr r (PDict m) = Inl TypeError))
             | _ \<Rightarrow> HTTPException_init repr r (PDict m) = Inl AttributeError)"
    by (simp add: defs Let_def helpful_lines str_add_def
        split: pyval.splits sum.splits)
  from one two three show ?thesis by blast
qed

theorem http_exception_body_shapes_witness:
  "(case HTTPException_init no_repr
           \<lparr>status_code = Some (PInt 404), status = None, reason = Some (PStr ''Not Found'')\<rparr>
           (PStr ''gone'') of
      Inl err \<Rightarrow> False
    | Inr e \<Rightarrow> exc_code e = PInt 0 \<and> exc_text e = PStr ''gone'' \<and> exc_status e = PInt 404)
   \<and> (case HTTPException_init no_repr
           \<lparr>status_code = Some (PInt 404), status = None, reason = Some (PStr ''Not Found'')\<rparr>
           (PDict [(''foo'', PInt 1)]) of
      Inl err \<Rightarrow> False
    | Inr e \<Rightarrow> exc_code e = PInt 0 \<and> exc_text e = PStr [] \<and> exc_status e = PInt 404)
   \<and> (case HTTPException_init no_repr
           \<lparr>status_code = Some (PInt 404), status = None, reason = Some (PStr ''Not Found'')\<rparr>
           (PDict [(''code'', PInt 7), (''message'', PStr ''bad''),
                   (''errors'', PDict [(''a'', PDict [(''b'', PStr ''x'')])])]) of
      Inl err \<Rightarrow> False
    | Inr e \<Rightarrow> exc_code e = PInt 7
               \<and> exc_text e = PStr (''bad'' @ [CHR 0x0A] @ ''In a.b: x'')
               \<and> exc_status e = PInt 404)"
proof -
  let ?r = "\<lparr>status_code = Some (PInt 404), status = None, reason = Some (PStr ''Not Found'')\<rparr>"
  have s: "read_status ?r = Inr (PInt 404)"
    by (simp add: read_status_def getattr_def)
  have t: "reason ?r = Some (PStr ''Not Found'')"
    by simp
  have f: "flatten_error_dict [(''a'', PDict [(''b'', PStr ''x'')])] [] = Inr [(''a.b'', PStr ''x'')]"
    by (simp add: flatten_error_dict_def new_key_def py_dict_def)
  from http_exception_body_shapes[OF s t, of "PStr ''gone''" no_repr]
  have 1: "(case HTTPException_init no_repr ?r (PStr ''gone'') of
      Inl err \<Rightarrow> False
    | Inr e \<Rightarrow> exc_code e = PInt 0 \<and> exc_text e = PStr ''gone'' \<and> exc_status e = PInt 404)"
    by (auto simp: py_or_def split: sum.splits)
  from http_exception_body_shapes[OF s t, of _ no_repr "[(''foo'', PInt 1)]"]
  have 2: "(case HTTPException_init no_repr ?r (PDict [(''foo'', PInt 1)]) of
      Inl err \<Rightarrow> False
    | Inr e \<Rightarrow> exc_code e = PInt 0 \<and> exc_text e = PStr [] \<and> exc_status e = PInt 404)"
    by (auto simp: dict_get_def split: sum.splits)
  from http_exception_body_shapes[OF s t, of _ no_repr
         "[(''code'', PInt 7), (''message'', PStr ''bad''),
           (''errors'', PDict [(''a'', PDict [(''b'', PStr ''x'')])])]"] f
  have 3: "(case HTTPException_init no_repr ?r
           (PDict [(''code'', PInt 7), (''message'', PStr ''bad''),
                   (''errors'', PDict [(''a'', PDict [(''b'', PStr ''x'')])])]) of
      Inl err \<Rightarrow> False
    | Inr e \<Rightarrow> exc_code e = PInt 7
               \<and> exc_text e = PStr (''bad'' @ [CHR 0x0A] @ ''In a.b: x'')
               \<and> exc_status e = PInt 404)"
    by (auto simp: dict_get_def py_str_def split: sum.splits)
  from 1 2 3 show ?thesis by blast
qed

text \<open>
  The claim as the specification states it fails: the body \<^verbatim>\<open>5\<close> raises
  \<^verbatim>\<open>TypeError\<close>, and a mapping body whose \<^verbatim>\<open>errors\<close> is the string \<^verbatim>\<open>"oops"\<close>
  raises \<^verbatim>\<open>AttributeError\<close> at \<^verbatim>\<open>d.items()\<close>.
\<close>

theorem http_exception_malformed_body_counterexample:
  "HTTPException_init no_repr
     \<lparr>status_code = Some (PInt 400), status = None, reason = Some (PStr ''Bad Request'')\<rparr>
     (PInt 5) = Inl TypeError
   \<and> HTTPException_init no_repr
     \<lparr>status_code = Some (PInt 400), status = None, reason = Some (PStr ''Bad Request'')\<rparr>
     (PDict [(''code'', PInt 0), (''message'', PStr ''bad''), (''errors'', PStr ''oops'')])
       = Inl AttributeError"
  by (simp add: HTTPException_init_def read_status_def read_message_def getattr_def py_or_def
      dict_get_def)

text \<open>
  Claim C6, as amended. A value \<open>v\<close> that is not a mapping is appended as it is, under
  the path \<open>new_key key k\<close>: the flattener does not coerce it. The values of a result are
  all strings when every scalar leaf of the input tree is a string.
\<close>

theorem flatten_scalar_leaf_unchanged:
  assumes "\<not> is_dict v" and "flatten_items d1 key = Inr a" and "flatten_items d2 key = Inr b"
  shows "flatten_error_dict (d1 @ (k, v) # d2) key = Inr (py_dict (a @ (new_key key k, v) # b))
       \<and> flatten_error_dict [(k, v)] key = Inr [(new_key key k, v)]
       \<and> (\<forall>d r. str_leaves d \<and> flatten_error_dict d key = Inr r \<longrightarrow>
             list_all (\<lambda>(p, m). is_str m) r)"
proof -
  note entry = flatten_items_scalar_entry[OF assms(1), of k key]
  have "flatten_error_dict (d1 @ (k, v) # d2) key = Inr (py_dict (a @ (new_key key k, v) # b))"
    using flatten_error_dict_insert[OF assms(2) entry assms(3)] by simp
  moreover have "flatten_error_dict [(k, v)] key = Inr [(new_key key k, v)]"
    using entry by (simp add: flatten_error_dict_def py_dict_single)
  moreover have "\<forall>d r. str_leaves d \<and> flatten_error_dict d key = Inr r \<longrightarrow>
             list_all (\<lambda>(p, m). is_str m) r"
  proof (intro allI impI)
    fix d r
    assume h: "str_leaves d \<and> flatten_error_dict d key = Inr r"
    then obtain items where i: "flatten_items d key = Inr items" and r: "r = py_dict items"
      by (auto simp: flatten_error_dict_def split: sum.splits)
    from h i have "list_all (\<lambda>(p, m). is_str m) items"
      using flatten_items_str_leaves by blast
    then show "list_all (\<lambda>(p, m). is_str m) r"
      unfolding r by (rule list_all_py_dict)
  qed
  ultimately show ?thesis by blast
qed

theorem flatten_scalar_leaf_unchanged_witness:
  "flatten_error_dict [(''x'', PStr ''no''), (''n'', PInt 5), (''y'', PList [PNone])] ''form''
     = Inr [(''form.x'', PStr ''no''), (''form.n'', PInt 5), (''form.y'', PList [PNone])]
   \<and> str_leaves [(''a'', PDict [(''b'', PStr ''x'')])]
   \<and> list_all (\<lambda>(p, m). is_str m) [(''form.a.b'', PStr ''x'')]"
proof -
  have 1: "\<not> is_dict (PInt 5)" by simp
  have 2: "flatten_items [(''x'', PStr ''no'')] ''form'' = Inr [(''form.x'', PStr ''no'')]"
    by (simp add: new_key_def)
  have 3: "flatten_items [(''y'', PList [PNone])] ''form'' = Inr [(''form.y'', PList [PNone])]"
    by (simp add: new_key_def)
  have 4: "str_leaves [(''a'', PDict [(''b'', PStr ''x'')])]" by simp
  have 5: "flatten_error_dict [(''a'', PDict [(''b'', PStr ''x'')])] ''form''
             = Inr [(''form.a.b'', PStr ''x'')]"
    by (simp add: flatten_error_dict_def new_key_def py_dict_def)
  note t = flatten_scalar_leaf_unchanged[OF 1 2 3, of "''n''"]
  from t have "flatten_error_dict [(''x'', PStr ''no''), (''n'', PInt 5), (''y'', PList [PNone])] ''form''
     = Inr [(''form.x'', PStr ''no''), (''form.n'', PInt 5), (''form.y'', PList [PNone])]"
    by (simp add: new_key_def py_dict_def)
  moreover from t 4 5 have "list_all (\<lambda>(p, m). is_str m) [(''form.a.b'', PStr ''x'')]"
    by blast
  ultimately show ?thesis using 4 by blast
qed

text \<open>
  The claim as the specification states it fails: the integer leaf of \<^verbatim>\<open>{"a": 5}\<close>
  stays the integer 5 in the result.
\<close>

theorem flatten_scalar_coerced_counterexample:
  "flatten_error_dict [(''a'', PInt 5)] [] = Inr [(''a'', PInt 5)] \<and> \<not> is_str (PInt 5)"
  by (simp add: flatten_error_dict_def new_key_def py_dict_def)

text \<open>
  Claim C7, as amended. For an \<^verbatim>\<open>_errors\<close> list of \<open>n\<close> records that all lack the
  \<^verbatim>\<open>message\<close> field, the flattener produces an entry for the path, not an omission,
  and its value is \<open>n - 1\<close> spaces, the separators of the join: the empty string when
  there is at most one record.
\<close>

theorem flatten_errors_without_message:
  assumes "map_of vd ''_errors'' = Some (PList recs)" and "list_all lacks_message recs"
    and "flatten_items d1 key = Inr a" and "flatten_items d2 key = Inr b"
  shows "flatten_error_dict (d1 @ (k, PDict vd) # d2) key =
           Inr (py_dict (a @ (new_key key k, PStr (replicate (length recs - 1) CHR '' '')) # b))
       \<and> flatten_error_dict [(k, PDict vd)] key =
           Inr [(new_key key k, PStr (replicate (length recs - 1) CHR '' ''))]
       \<and> (length recs \<le> 1 \<longrightarrow> flatten_error_dict [(k, PDict vd)] key = Inr [(new_key key k, PStr [])])"
proof -
  from assms(2) have recs: "list_all error_record recs"
    and msgs: "map message_of recs = replicate (length recs) []"
    using lacks_message_record by (auto simp: list_all_iff map_replicate_const[symmetric])
  have joined: "join_strs '' '' (map message_of recs) = replicate (length recs - 1) CHR '' ''"
    by (simp only: msgs join_strs_empty)
  note entry = flatten_items_errors_entry[OF assms(1) recs, of k key, unfolded joined]
  have "flatten_error_dict (d1 @ (k, PDict vd) # d2) key =
           Inr (py_dict (a @ (new_key key k, PStr (replicate (length recs - 1) CHR '' '')) # b))"
    using flatten_error_dict_insert[OF assms(3) entry assms(4)] by simp
  moreover have single: "flatten_error_dict [(k, PDict vd)] key =
           Inr [(new_key key k, PStr (replicate (length recs - 1) CHR '' ''))]"
    using entry by (simp add: flatten_error_dict_def py_dict_single)
  moreover have "length recs \<le> 1 \<longrightarrow>
      flatten_error_dict [(k, PDict vd)] key = Inr [(new_key key k, PStr [])]"
    using single by simp
  ultimately show ?thesis by blast
qed

theorem flatten_errors_without_message_witness:
  "flatten_error_dict
     [(''x'', PStr ''no''),
      (''a'', PDict [(''_errors'', PList [PDict [], PDict [(''code'', PStr ''E'')], PDict []])]),
      (''y'', PStr ''yes'')] ''form''
     = Inr [(''form.x'', PStr ''no''), (''form.a'', PStr ''  ''), (''form.y'', PStr ''yes'')]
   \<and> flatten_error_dict [(''a'', PDict [(''_errors'', PList [PDict []])])] ''form''
     = Inr [(''form.a'', PStr [])]"
proof -
  have 1: "map_of [(''_errors'', PList [PDict [], PDict [(''code'', PStr ''E'')], PDict []])] ''_errors''
            = Some (PList [PDict [], PDict [(''code'', PStr ''E'')], PDict []])"
    by simp
  have 2: "list_all lacks_message [PDict [], PDict [(''code'', PStr ''E'')], PDict []]" by simp
  have 3: "flatten_items [(''x'', PStr ''no'')] ''form'' = Inr [(''form.x'', PStr ''no'')]"
    by (simp add: new_key_def)
  have 4: "flatten_items [(''y'', PStr ''yes'')] ''form'' = Inr [(''form.y'', PStr ''yes'')]"
    by (simp add: new_key_def)
  have 5: "map_of [(''_errors'', PList [PDict []])] ''_errors'' = Some (PList [PDict []])"
    by simp
  have 6: "list_all lacks_message [PDict []]" by simp
  have 7: "flatten_items [] ''form'' = Inr []" by simp
  from flatten_errors_without_message[OF 1 2 3 4, of "''a''"]
  have "flatten_error_dict
     [(''x'', PStr ''no''),
      (''a'', PDict [(''_errors'', PList [PDict [], PDict [(''code'', PStr ''E'')], PDict []])]),
      (''y'', PStr ''yes'')] ''form''
     = Inr [(''form.x'', PStr ''no''), (''form.a'', PStr ''  ''), (''form.y'', PStr ''yes'')]"
    by (simp add: new_key_def py_dict_def)
  moreover from flatten_errors_without_message[OF 5 6 7 7, of "''a''"]
  have "flatten_error_dict [(''a'', PDict [(''_errors'', PList [PDict []])])] ''form''
     = Inr [(''form.a'', PStr [])]"
    by (simp add: new_key_def py_dict_def)
  ultimately show ?thesis by blast
qed

text \<open>
  The claim as the specification states it fails for two records: the value is one space.
\<close>

theorem flatten_errors_without_message_counterexample:
  "flatten_error_dict [(''a'', PDict [(''_errors'', PList [PDict [], PDict []])])] []
     = Inr [(''a'', PStr '' '')]
   \<and> PStr '' '' \<noteq> PStr []"
  by (simp add: flatten_error_dict_def join_messages_def dict_get_def new_key_def py_dict_def)

text \<open>
  Claim C8. On a mapping with distinct keys whose values are all scalars (none is a
  mapping), the flattener with the empty prefix returns the mapping itself, in the same
  order, and flattening that result again returns the same.
\<close>

theorem flatten_flat_idempotent:
  assumes "distinct (map fst d)" and "list_all (\<lambda>(k, v). \<not> is_dict v) d"
  shows "flatten_error_dict d [] = Inr d
       \<and> (case flatten_error_dict d [] of
            Inl e \<Rightarrow> False
          | Inr r \<Rightarrow> flatten_error_dict r [] = flatten_error_dict d [])"
proof -
  have "flatten_error_dict d [] = Inr d"
    using flatten_items_flat[OF assms(2)] py_dict_distinct[OF assms(1)]
    by (simp add: flatten_error_dict_def)
  then show ?thesis by simp
qed

theorem flatten_flat_idempotent_witness:
  "flatten_error_dict [(''a.b'', PStr ''x''), (''c'', PInt 3), (''d'', PList [PStr ''y''])] []
     = Inr [(''a.b'', PStr ''x''), (''c'', PInt 3), (''d'', PList [PStr ''y''])]"
  using flatten_flat_idempotent[of "[(''a.b'', PStr ''x''), (''c'', PInt 3), (''d'', PList [PStr ''y''])]"]
  by simp

text \<open>
  Claim C9. \<^verbatim>\<open>RateLimited\<close> is a subclass of \<^verbatim>\<open>ChatBotException\<close> and not of
  \<^verbatim>\<open>HTTPException\<close>. Constructed from a \<^verbatim>\<open>retry_after\<close> float alone, the object has
  the attribute \<^verbatim>\<open>retry_after\<close> and, whatever the float, none of \<^verbatim>\<open>status\<close>,
  \<^verbatim>\<open>code\<close> and \<^verbatim>\<open>text\<close>. For \<^verbatim>\<open>retry_after = 1.5\<close>, which is \<open>3 * 2 ^ -1\<close>, the message is
  \<^verbatim>\<open>Too many requests. Retry in 1.50\<close>, which contains \<^verbatim>\<open>1.50\<close>.
\<close>

theorem rate_limited_shape:
  "\<not> is_sub RateLimited HTTPException
   \<and> is_sub RateLimited ChatBotException
   \<and> \<not> hasattr (RateLimited_init retry_after) ''status''
   \<and> \<not> hasattr (RateLimited_init retry_after) ''code''
   \<and> \<not> hasattr (RateLimited_init retry_after) ''text''
   \<and> hasattr (RateLimited_init retry_after) ''retry_after''
   \<and> obj_message (RateLimited_init (Finite False 3 (- 1)))
       = ''Too many requests. Retry in '' @ ''1.50''"
proof -
  have sub: "\<not> is_sub RateLimited HTTPException \<and> is_sub RateLimited ChatBotException"
    by (simp add: is_sub_def mro.simps)
  have attrs: "\<not> hasattr (RateLimited_init retry_after) ''status''
      \<and> \<not> hasattr (RateLimited_init retry_after) ''code''
      \<and> \<not> hasattr (RateLimited_init retry_after) ''text''
      \<and> hasattr (RateLimited_init retry_after) ''retry_after''"
    by (simp add: hasattr_def RateLimited_init_def mro.simps)
  have "hundredths 3 (- 1) = 150"
    by (simp add: hundredths_def round_half_even_def)
  then have "format_2f (Finite False 3 (- 1)) = ''1.50''"
    by (simp add: dec_digit)
  then have "obj_message (RateLimited_init (Finite False 3 (- 1)))
       = ''Too many requests. Retry in '' @ ''1.50''"
    by (simp add: RateLimited_init_def)
  with sub attrs show ?thesis by blast
qed

text \<open>
  Claim C10. The flattener of \<^verbatim>\<open>errors.py\<close> and the flattener of
  \<^verbatim>\<open>ext/errors/base_errors.py\<close> return the same on every mapping and every prefix, the
  same exception included.
\<close>

theorem flatteners_agree:
  "errors_flatten_error_dict d key = flatten_error_dict d key"
  by (simp add: errors_flatten_error_dict_def flatten_error_dict_def errors_flatten_items_eq)

end
